theory Spec2Isabelle
  imports Complex_Main "HOL-Library.Stream"
begin

section \<open>JavaScript numbers\<close>

text \<open>
  A JavaScript number is an IEEE 754 double. The model keeps its special values and, where
  the source uses only operations that IEEE 754 rounds correctly, its rounding:

  \<^item> \<open>num\<close> is a finite value, \<open>Infinity\<close>, \<open>-Infinity\<close> or \<open>NaN\<close>. The arithmetic on \<open>num\<close>
    follows IEEE 754 on the special values (\<open>NaN\<close> is absorbing, \<open>Infinity - Infinity\<close>,
    \<open>0 * Infinity\<close> and \<open>0 / 0\<close> are \<open>NaN\<close>, a nonzero number divided by zero is infinite, every
    comparison with \<open>NaN\<close> is false) and is exact on finite values. The sign of a zero is not
    represented: a zero is \<open>+0\<close>.

  \<^item> \<open>rnd\<close> rounds an exact result to the nearest double, ties to even, with gradual
    underflow and with overflow to an infinity (\<open>fl\<close> is the rounding of a real number
    before the overflow is looked at). \<open>applyTimeDecay\<close> and \<open>calculatePartialCredit\<close> use
    only \<open>+\<close>, \<open>-\<close>, \<open>*\<close>, \<open>/\<close> and \<open>Math.sqrt\<close>, which are correctly rounded: they are modelled
    with \<open>rnd\<close> around every operation, and a decimal literal is the double nearest to it.

  \<^item> The Glicko-2 update uses \<open>Math.exp\<close> and \<open>Math.log\<close>, whose results ECMAScript leaves to
    the implementation. Its arithmetic is modelled without rounding: \<open>Math.exp\<close>, \<open>Math.log\<close>,
    \<open>Math.sqrt\<close> and \<open>Math.PI\<close> are \<^const>\<open>exp\<close>, \<^const>\<open>ln\<close>, \<^const>\<open>sqrt\<close> and \<^const>\<open>pi\<close> on
    finite values. What the update computes is therefore stated only where rounding does not
    matter: on the special values, and on which computation is performed with which
    arguments.

  \<open>Math.round\<close> is \<open>floor (x + 0.5)\<close>, which is \<^const>\<open>round\<close>.
\<close>

datatype num = Num real | PInf | NInf | NaN

fun num_neg :: "num \<Rightarrow> num" where
  "num_neg (Num x) = Num (- x)"
| "num_neg PInf = NInf"
| "num_neg NInf = PInf"
| "num_neg NaN = NaN"

fun num_add :: "num \<Rightarrow> num \<Rightarrow> num" where
  "num_add (Num x) (Num y) = Num (x + y)"
| "num_add NaN b = NaN"
| "num_add a NaN = NaN"
| "num_add PInf NInf = NaN"
| "num_add NInf PInf = NaN"
| "num_add PInf b = PInf"
| "num_add a PInf = PInf"
| "num_add NInf b = NInf"
| "num_add a NInf = NInf"

fun num_mul :: "num \<Rightarrow> num \<Rightarrow> num" where
  "num_mul (Num x) (Num y) = Num (x * y)"
| "num_mul NaN b = NaN"
| "num_mul a NaN = NaN"
| "num_mul (Num x) b = (if x = 0 then NaN else if 0 < x then b else num_neg b)"
| "num_mul a (Num y) = (if y = 0 then NaN else if 0 < y then a else num_neg a)"
| "num_mul PInf b = b"
| "num_mul NInf b = num_neg b"

fun num_div :: "num \<Rightarrow> num \<Rightarrow> num" where
  "num_div (Num x) (Num y) =
     (if y \<noteq> 0 then Num (x / y) else if x = 0 then NaN else if 0 < x then PInf else NInf)"
| "num_div NaN b = NaN"
| "num_div a NaN = NaN"
| "num_div (Num x) b = Num 0"
| "num_div PInf (Num y) = (if 0 \<le> y then PInf else NInf)"
| "num_div NInf (Num y) = (if 0 \<le> y then NInf else PInf)"
| "num_div a b = NaN"

fun num_less :: "num \<Rightarrow> num \<Rightarrow> bool" where
  "num_less (Num x) (Num y) = (x < y)"
| "num_less NaN b = False"
| "num_less a NaN = False"
| "num_less a NInf = False"
| "num_less PInf b = False"
| "num_less a b = True"

fun num_le :: "num \<Rightarrow> num \<Rightarrow> bool" where
  "num_le (Num x) (Num y) = (x \<le> y)"
| "num_le NaN b = False"
| "num_le a NaN = False"
| "num_le NInf b = True"
| "num_le a PInf = True"
| "num_le a b = False"

text \<open>The operators \<open>-\<close>, \<open>+\<close>, \<open>*\<close>, \<open>/\<close>, \<open><\<close> and \<open><=\<close> on \<open>num\<close> are these functions.\<close>

instantiation num :: "{uminus, plus, minus, times, inverse, ord}"
begin

definition uminus_num :: "num \<Rightarrow> num" where
  "uminus_num = num_neg"

definition plus_num :: "num \<Rightarrow> num \<Rightarrow> num" where
  "plus_num = num_add"

definition minus_num :: "num \<Rightarrow> num \<Rightarrow> num" where
  "minus_num a b = num_add a (num_neg b)"

definition times_num :: "num \<Rightarrow> num \<Rightarrow> num" where
  "times_num = num_mul"

definition divide_num :: "num \<Rightarrow> num \<Rightarrow> num" where
  "divide_num = num_div"

definition inverse_num :: "num \<Rightarrow> num" where
  "inverse_num a = num_div (Num 1) a"

definition less_num :: "num \<Rightarrow> num \<Rightarrow> bool" where
  "less_num = num_less"

definition less_eq_num :: "num \<Rightarrow> num \<Rightarrow> bool" where
  "less_eq_num = num_le"

instance ..

end

declare uminus_num_def [simp] plus_num_def [simp] minus_num_def [simp] times_num_def [simp]
  divide_num_def [simp] less_num_def [simp] less_eq_num_def [simp]

text \<open>\<open>Math.abs\<close>, \<open>Math.max\<close>, \<open>Math.min\<close>, \<open>Math.round\<close>, \<open>Math.sqrt\<close>, \<open>Math.exp\<close>, \<open>Math.log\<close>.\<close>

fun Math_abs :: "num \<Rightarrow> num" where
  "Math_abs (Num x) = Num \<bar>x\<bar>"
| "Math_abs PInf = PInf"
| "Math_abs NInf = PInf"
| "Math_abs NaN = NaN"

definition Math_max :: "num \<Rightarrow> num \<Rightarrow> num" where
  "Math_max a b = (if a = NaN \<or> b = NaN then NaN else if a \<le> b then b else a)"

definition Math_min :: "num \<Rightarrow> num \<Rightarrow> num" where
  "Math_min a b = (if a = NaN \<or> b = NaN then NaN else if a \<le> b then a else b)"

fun Math_round :: "num \<Rightarrow> num" where
  "Math_round (Num x) = Num (of_int (round x))"
| "Math_round a = a"

fun Math_sqrt :: "num \<Rightarrow> num" where
  "Math_sqrt (Num x) = (if x < 0 then NaN else Num (sqrt x))"
| "Math_sqrt PInf = PInf"
| "Math_sqrt a = NaN"

fun Math_exp :: "num \<Rightarrow> num" where
  "Math_exp (Num x) = Num (exp x)"
| "Math_exp PInf = PInf"
| "Math_exp NInf = Num 0"
| "Math_exp NaN = NaN"

fun Math_log :: "num \<Rightarrow> num" where
  "Math_log (Num x) = (if x < 0 then NaN else if x = 0 then NInf else Num (ln x))"
| "Math_log PInf = PInf"
| "Math_log a = NaN"

definition Math_PI :: num where "Math_PI = Num pi"

subsection \<open>Rounding to the nearest double\<close>

text \<open>
  A nonzero real \<open>x\<close> with \<open>2 ^ e \<le> |x| < 2 ^ (e + 1)\<close> (\<open>e\<close> is \<open>binade x\<close>) is rounded to a
  multiple of \<open>2 ^ (e - 52)\<close>, or of \<open>2 ^ (- 1074)\<close> in the subnormal range \<open>e < - 1022\<close>: the
  nearest one, and of two nearest ones the even multiple.
\<close>

definition binade :: "real \<Rightarrow> int" where
  "binade x = \<lfloor>log 2 \<bar>x\<bar>\<rfloor>"

definition quantum :: "real \<Rightarrow> real" where
  "quantum x = 2 powi (max (binade x) (- 1022) - 52)"

definition roundEven :: "real \<Rightarrow> int" where
  "roundEven y =
     (let n = \<lfloor>y\<rfloor>
      in if y - of_int n < 1 / 2 then n
         else if 1 / 2 < y - of_int n then n + 1
         else if even n then n else n + 1)"

definition fl :: "real \<Rightarrow> real" where
  "fl x = (if x = 0 then 0 else of_int (roundEven (x / quantum x)) * quantum x)"

text \<open>A result whose rounding reaches \<open>2 ^ 1024\<close> in magnitude overflows to an infinity.\<close>

definition overflow :: real where
  "overflow = 2 ^ 1024"

fun rnd :: "num \<Rightarrow> num" where
  "rnd (Num x) =
     (if overflow \<le> fl x then PInf else if fl x \<le> - overflow then NInf else Num (fl x))"
| "rnd a = a"

section \<open>Data model\<close>

text \<open>
  The fields \<open>rating\<close>, \<open>rd\<close> and \<open>volatility\<close> of a \<open>UserRating\<close> are results of the
  arithmetic of the rating engine, which can be \<open>NaN\<close>: they are of type \<open>num\<close>. Time stamps,
  the ratings of problems and the times of solves are data that the application reads: they
  are finite numbers, of type \<open>real\<close>.

  An optional field (\<open>rating?\<close>, \<open>isPaid?\<close>, \<open>timeUsed?\<close>) is an \<open>option\<close>; a value that the
  source tests for truthiness is falsy when it is \<open>None\<close>, \<open>0\<close>, \<open>False\<close> or the empty
  string.
\<close>

record UserRating =
  rating :: num
  rd :: num
  volatility :: num
  lastUpdated :: "real option"
  solveCount :: int

type_synonym Category = string

record Problem =
  slug :: string
  title :: string
  prating :: "real option"
  tags :: "Category list"
  isPaid :: "bool option"
  popularity :: real

record TimedSolveAttempt =
  att_slug :: string
  att_title :: string
  att_problemRating :: real
  att_category :: Category
  att_timeLimit :: real
  att_timeUsed :: real
  att_completed :: bool
  att_timestamp :: real

record Solve =
  s_slug :: string
  s_status :: string
  s_timestamp :: real
  s_rating :: "real option"
  s_tags :: "Category list"
  s_timeUsed :: "real option"

record UserRatings =
  global :: UserRating
  categories :: "Category \<rightharpoonup> UserRating"

text \<open>The object store \<open>user-ratings\<close> of the storage collaborator, by key.\<close>

type_synonym ratingsStore = "string \<rightharpoonup> UserRatings"

subsection \<open>The environment: clock and random source\<close>

text \<open>
  \<open>Date.now()\<close> and \<open>Math.random()\<close> read an environment that is threaded through the
  functions calling them: the stream of the readings still to come. A frozen clock is a
  constant stream. \<open>Math.random()\<close> returns a number in \<open>[0, 1)\<close>.
\<close>

record world =
  clock :: "real stream"
  random :: "real stream"

definition Date_now :: "world \<Rightarrow> real \<times> world" where
  "Date_now w = (shd (clock w), w\<lparr>clock := stl (clock w)\<rparr>)"

definition Math_random :: "world \<Rightarrow> real \<times> world" where
  "Math_random w = (shd (random w), w\<lparr>random := stl (random w)\<rparr>)"

definition random_ok :: "world \<Rightarrow> bool" where
  "random_ok w \<longleftrightarrow> (\<forall>u \<in> sset (random w). 0 \<le> u \<and> u < 1)"

section \<open>RatingEngine (eloRating.ts)\<close>

subsection \<open>Constants\<close>

text \<open>
  A decimal literal of the source is the double nearest to it; the integer literals are
  doubles themselves.
\<close>

definition GLICKO_SCALE :: num where "GLICKO_SCALE = Num (fl 173.7178)"
definition TAU :: num where "TAU = Num 0.5"
definition EPSILON :: num where "EPSILON = Num (fl 0.000001)"
definition DEFAULT_RATING :: num where "DEFAULT_RATING = Num 1500"
definition DEFAULT_RD :: num where "DEFAULT_RD = Num 350"
definition DEFAULT_VOLATILITY :: num where "DEFAULT_VOLATILITY = Num (fl 0.06)"
definition BASE_TIME_MINUTES :: real where "BASE_TIME_MINUTES = 20"
definition RATING_PERIOD_DAYS :: num where "RATING_PERIOD_DAYS = Num 365"
definition C_PARAMETER :: num where "C_PARAMETER = Num 50"

subsection \<open>Helper functions\<close>

definition toGlickoScale :: "num \<Rightarrow> num" where
  "toGlickoScale r = (r - DEFAULT_RATING) / GLICKO_SCALE"

definition fromGlickoScale :: "num \<Rightarrow> num" where
  "fromGlickoScale glickoRating = glickoRating * GLICKO_SCALE + DEFAULT_RATING"

definition rdToGlickoScale :: "num \<Rightarrow> num" where
  "rdToGlickoScale d = d / GLICKO_SCALE"

definition rdFromGlickoScale :: "num \<Rightarrow> num" where
  "rdFromGlickoScale glickoRd = glickoRd * GLICKO_SCALE"

text \<open>The source's \<open>g\<close> and \<open>E\<close>; the names are lengthened so that they stay free for variables.\<close>

definition g_phi :: "num \<Rightarrow> num" where
  "g_phi phi = Num 1 / Math_sqrt (Num 1 + (Num 3 * phi * phi) / (Math_PI * Math_PI))"

definition E_score :: "num \<Rightarrow> num \<Rightarrow> num \<Rightarrow> num" where
  "E_score mu muJ phiJ = Num 1 / (Num 1 + Math_exp (- g_phi phiJ * (mu - muJ)))"

subsection \<open>Time decay, partial credit, time limit\<close>

text \<open>
  \<open>applyTimeDecay\<close>, with the rounding of every operation. \<open>!userRating.lastUpdated\<close> holds
  for an unset and for a zero time stamp. When \<open>currentTime\<close> lies so far before
  \<open>lastUpdated\<close> that the radicand is negative, \<open>Math.sqrt\<close> returns \<open>NaN\<close>, which passes
  through \<open>Math.min\<close> and \<open>Math.round\<close>.
\<close>

definition applyTimeDecay :: "UserRating \<Rightarrow> real \<Rightarrow> UserRating" where
  "applyTimeDecay userRating currentTime =
     (case lastUpdated userRating of
        None \<Rightarrow> userRating
      | Some lu \<Rightarrow>
          if lu = 0 then userRating
          else
            let elapsedMs = rnd (Num currentTime - Num lu);
                msPerPeriod = rnd (rnd (rnd (rnd (RATING_PERIOD_DAYS * Num 24) * Num 60) * Num 60) * Num 1000);
                elapsedPeriods = rnd (elapsedMs / msPerPeriod);
                rdSquared = rnd (rd userRating * rd userRating);
                cSquared = rnd (C_PARAMETER * C_PARAMETER);
                newRd = rnd (Math_sqrt (rnd (rdSquared + rnd (cSquared * elapsedPeriods))));
                cappedRd = Math_min newRd DEFAULT_RD
            in userRating\<lparr>rd := Math_round cappedRd, lastUpdated := Some currentTime\<rparr>)"

text \<open>
  The radicand of \<open>applyTimeDecay\<close>, \<open>rdSquared + cSquared * elapsedPeriods\<close> as the source
  computes it, with the constants \<open>cSquared = 2500\<close> and \<open>msPerPeriod = 31536000000\<close>
  evaluated (\<open>applyTimeDecay_set\<close> below).
\<close>

definition decayRadicand :: "num \<Rightarrow> real \<Rightarrow> real \<Rightarrow> num" where
  "decayRadicand d lu currentTime =
     rnd (rnd (d * d) + rnd (Num 2500 * rnd (rnd (Num currentTime - Num lu) / Num 31536000000)))"

text \<open>\<open>calculatePartialCredit\<close>, with the rounding of every operation.\<close>

definition calculatePartialCredit :: "num \<Rightarrow> num \<Rightarrow> bool \<Rightarrow> num" where
  "calculatePartialCredit timeUsed tLimit done =
     (if \<not> done then Num 0
      else
        let ratio = rnd (timeUsed / tLimit)
        in if ratio \<le> Num 1 then Num 1
           else if ratio \<le> Num 2 then rnd (Num 1 - rnd (rnd (ratio - Num 1) * Num (fl 0.7)))
           else Num 0)"

text \<open>The default parameter \<open>baseMinutes = BASE_TIME_MINUTES\<close> is an optional argument.\<close>

definition determineTimeLimit :: "real \<Rightarrow> real option \<Rightarrow> real" where
  "determineTimeLimit problemRating baseMinutes =
     (case baseMinutes of None \<Rightarrow> BASE_TIME_MINUTES | Some m \<Rightarrow> m) * 60"

text \<open>
  \<open>createTimedAttempt\<close> (calibration): \<open>problem.tags[0] || 'Array'\<close> and
  \<open>problem.rating || 1500\<close>; the time stamp is the reading of the clock.
\<close>

definition createTimedAttempt :: "Problem \<Rightarrow> real \<Rightarrow> bool \<Rightarrow> real \<Rightarrow> TimedSolveAttempt" where
  "createTimedAttempt problem timeUsed done now =
     (let primaryCategory =
            (case tags problem of [] \<Rightarrow> ''Array'' | t # _ \<Rightarrow> if t = [] then ''Array'' else t);
          pr = (case prating problem of None \<Rightarrow> 1500 | Some r \<Rightarrow> if r = 0 then 1500 else r);
          tl = determineTimeLimit pr None
      in \<lparr>att_slug = slug problem, att_title = title problem, att_problemRating = pr,
          att_category = primaryCategory, att_timeLimit = tl, att_timeUsed = timeUsed,
          att_completed = done, att_timestamp = now\<rparr>)"

subsection \<open>The Glicko-2 update\<close>

text \<open>
  The local function \<open>f\<close> of \<open>updateRating\<close>; its free variables \<open>a\<close>, \<open>deltaSquared\<close>,
  \<open>phiSquared\<close> and \<open>v\<close> are parameters.
\<close>

definition f_vol :: "num \<Rightarrow> num \<Rightarrow> num \<Rightarrow> num \<Rightarrow> num \<Rightarrow> num" where
  "f_vol a deltaSquared phiSquared v x =
     (let eX = Math_exp x;
          phiSquaredPlusV = phiSquared + v + eX;
          term1 = (eX * (deltaSquared - phiSquared - v - eX)) / (Num 2 * phiSquaredPlusV * phiSquaredPlusV);
          term2 = (x - a) / (TAU * TAU)
      in term1 - term2)"

text \<open>
  The two \<open>while\<close> loops of the volatility solver have no iteration bound in the source.
  They are partial functions: \<open>None\<close> is a loop that does not end. \<open>findK\<close> is
  \<open>while (f(a - k * TAU) < 0) k++\<close> and returns the final \<open>k\<close>; \<open>illinois\<close> is
  \<open>while (Math.abs(B - A) > EPSILON) {...}\<close> and returns the final \<open>A\<close>. Both conditions are
  false when the number compared is \<open>NaN\<close>.
\<close>

partial_function (option) findK :: "(num \<Rightarrow> num) \<Rightarrow> num \<Rightarrow> nat \<Rightarrow> nat option" where
  "findK f a k = (if f (a - Num (real k) * TAU) < Num 0 then findK f a (k + 1) else Some k)"

partial_function (option) illinois ::
  "(num \<Rightarrow> num) \<Rightarrow> num \<Rightarrow> num \<Rightarrow> num \<Rightarrow> num \<Rightarrow> num option"
where
  "illinois f A B fA fB =
     (if Math_abs (B - A) > EPSILON then
        (let C = A + ((A - B) * fA) / (fB - fA);
             fC = f C
         in if fC * fB < Num 0 then illinois f B C fB fC
            else illinois f A C (fA / Num 2) fC)
      else Some A)"

text \<open>Step 5 of \<open>updateRating\<close>: the new volatility \<open>exp (A / 2)\<close>, if the loops end.\<close>

definition newVolatility :: "num \<Rightarrow> num \<Rightarrow> num \<Rightarrow> num \<Rightarrow> num option" where
  "newVolatility a deltaSquared phiSquared v =
     (let f = f_vol a deltaSquared phiSquared v;
          B0 = (if deltaSquared > phiSquared + v then Some (Math_log (deltaSquared - phiSquared - v))
                else map_option (\<lambda>k. a - Num (real k) * TAU) (findK f a 1))
      in case B0 of
           None \<Rightarrow> None
         | Some B \<Rightarrow> map_option (\<lambda>A. Math_exp (A / Num 2)) (illinois f a B (f a) (f B)))"

text \<open>
  \<open>updateRating\<close> reads the clock twice: before the time decay and for the new
  \<open>lastUpdated\<close>. The result is \<open>None\<close> when the volatility solver does not return.
\<close>

definition updateRating ::
  "UserRating \<Rightarrow> num \<Rightarrow> num \<Rightarrow> world \<Rightarrow> (UserRating \<times> world) option"
where
  "updateRating userRating problemRating actualOutcome w =
     (let (currentTime, w1) = Date_now w;
          decayedRating = applyTimeDecay userRating currentTime;
          mu = toGlickoScale (rating decayedRating);
          phi = rdToGlickoScale (rd decayedRating);
          sigma = volatility decayedRating;
          muJ = toGlickoScale problemRating;
          phiJ = rdToGlickoScale (Num 50);
          gPhiJ = g_phi phiJ;
          expectedScore = E_score mu muJ phiJ;
          v = Num 1 / (gPhiJ * gPhiJ * expectedScore * (Num 1 - expectedScore));
          delta = v * gPhiJ * (actualOutcome - expectedScore);
          a = Math_log (sigma * sigma);
          deltaSquared = delta * delta;
          phiSquared = phi * phi
      in case newVolatility a deltaSquared phiSquared v of
           None \<Rightarrow> None
         | Some newSigma \<Rightarrow>
             let phiStar = Math_sqrt (phiSquared + newSigma * newSigma);
                 newPhi = Num 1 / Math_sqrt (Num 1 / (phiStar * phiStar) + Num 1 / v);
                 newMu = mu + newPhi * newPhi * gPhiJ * (actualOutcome - expectedScore);
                 newRating = Math_max (Num 800) (Math_min (Num 3500) (fromGlickoScale newMu));
                 newRd = Math_max (Num 30) (Math_min (Num 350) (rdFromGlickoScale newPhi));
                 (now2, w2) = Date_now w1
             in Some (\<lparr>rating = Math_round newRating, rd = Math_round newRd,
                       volatility = newSigma, lastUpdated = Some now2,
                       solveCount = solveCount decayedRating + 1\<rparr>, w2))"

definition initializeRating :: "world \<Rightarrow> UserRating \<times> world" where
  "initializeRating w =
     (let (now, w') = Date_now w
      in (\<lparr>rating = DEFAULT_RATING, rd = DEFAULT_RD, volatility = DEFAULT_VOLATILITY,
           lastUpdated = Some now, solveCount = 0\<rparr>, w'))"

text \<open>
  The invariants of a \<open>UserRating\<close> that the data model states: a finite rating in
  \<open>[800, 3500]\<close>, a finite deviation in \<open>[30, 350]\<close> and a finite positive volatility.
\<close>

definition validRating :: "UserRating \<Rightarrow> bool" where
  "validRating r \<longleftrightarrow>
     (\<exists>x d s. rating r = Num x \<and> rd r = Num d \<and> volatility r = Num s
        \<and> 800 \<le> x \<and> x \<le> 3500 \<and> 30 \<le> d \<and> d \<le> 350 \<and> 0 < s)"

section \<open>Storage of ratings (storage/ratings.ts)\<close>

definition ratingsKey :: "string \<Rightarrow> string" where
  "ratingsKey username = username @ ''|ratings''"

definition getRatings :: "ratingsStore \<Rightarrow> string \<Rightarrow> UserRatings option" where
  "getRatings store username = store (ratingsKey username)"

definition saveRatings :: "ratingsStore \<Rightarrow> string \<Rightarrow> UserRatings \<Rightarrow> ratingsStore" where
  "saveRatings store username ratings = store(ratingsKey username \<mapsto> ratings)"

definition initializeRatings ::
  "string \<Rightarrow> ratingsStore \<Rightarrow> world \<Rightarrow> UserRatings \<times> ratingsStore \<times> world"
where
  "initializeRatings username store w =
     (let (g, w') = initializeRating w;
          ratings = \<lparr>global = g, categories = Map.empty\<rparr>
      in (ratings, saveRatings store username ratings, w'))"

section \<open>RatingSync\<close>

text \<open>
  The loop over \<open>solve.tags\<close> of \<open>updateRatingsFromSolve\<close>. A missing category rating is
  created from \<open>initializeRating()\<close> with the rating of the (already updated) global rating
  and the deviation \<open>Math.max(200, globalRd)\<close>.
\<close>

fun updateCategories ::
  "Category list \<Rightarrow> num \<Rightarrow> num \<Rightarrow> UserRatings \<Rightarrow> world \<Rightarrow> (UserRatings \<times> world) option"
where
  "updateCategories [] solveRating outcomeScore ratings w = Some (ratings, w)"
| "updateCategories (tag # rest) solveRating outcomeScore ratings w =
     (if tag = ''Random'' then updateCategories rest solveRating outcomeScore ratings w
      else
        let (categoryRating, w1) =
              (case categories ratings tag of
                 Some c \<Rightarrow> (c, w)
               | None \<Rightarrow>
                   (let (init, w') = initializeRating w
                    in (init\<lparr>rating := rating (global ratings),
                             rd := Math_max (Num 200) (rd (global ratings))\<rparr>, w')))
        in case updateRating categoryRating solveRating outcomeScore w1 of
             None \<Rightarrow> None
           | Some (c', w2) \<Rightarrow>
               updateCategories rest solveRating outcomeScore
                 (ratings\<lparr>categories := (categories ratings)(tag \<mapsto> c')\<rparr>) w2)"

text \<open>
  \<open>updateRatingsFromSolve\<close>. The storage calls are taken to succeed; logging and the
  \<open>ratings-updated\<close> event are not part of the state.
\<close>

definition updateRatingsFromSolve ::
  "string \<Rightarrow> Solve \<Rightarrow> ratingsStore \<Rightarrow> world \<Rightarrow> (ratingsStore \<times> world) option"
where
  "updateRatingsFromSolve username solve store w =
     (case s_rating solve of
        None \<Rightarrow> Some (store, w)
      | Some r \<Rightarrow>
          if r = 0 \<or> r \<le> 0 then Some (store, w)
          else
            let (ratings, store1, w1) =
                  (case getRatings store username of
                     Some rs \<Rightarrow> (rs, store, w)
                   | None \<Rightarrow> initializeRatings username store w);
                outcomeScore =
                  (case s_timeUsed solve of
                     Some tu \<Rightarrow>
                       if tu \<noteq> 0 \<and> tu > 0 then
                         (let tl = determineTimeLimit r None;
                              done = (s_status solve = ''Accepted'')
                          in calculatePartialCredit (Num tu) (Num tl) done)
                       else (if s_status solve = ''Accepted'' then Num 1 else Num (fl 0.1))
                   | None \<Rightarrow> (if s_status solve = ''Accepted'' then Num 1 else Num (fl 0.1)))
            in case updateRating (global ratings) (Num r) outcomeScore w1 of
                 None \<Rightarrow> None
               | Some (g', w2) \<Rightarrow>
                   (case updateCategories (s_tags solve) (Num r) outcomeScore (ratings\<lparr>global := g'\<rparr>) w2 of
                      None \<Rightarrow> None
                    | Some (ratings', w3) \<Rightarrow> Some (saveRatings store1 username ratings', w3)))"

section \<open>HistoricalEstimator (historicalRatingEstimation.ts)\<close>














section \<open>CalibrationFlow: problem selection\<close>

definition CALIBRATION_TARGET_RATINGS :: "real list" where
  "CALIBRATION_TARGET_RATINGS = [1200, 1400, 1600, 1800, 2000, 2200]"

text \<open>The filter of \<open>selectCalibrationProblems\<close>: unsolved, not paid, rated in \<open>[1100, 2300]\<close>.\<close>

definition isCandidate :: "string set \<Rightarrow> Problem \<Rightarrow> bool" where
  "isCandidate solvedSlugs p \<longleftrightarrow>
     slug p \<notin> solvedSlugs \<and> isPaid p \<noteq> Some True \<and>
     (case prating p of None \<Rightarrow> False | Some r \<Rightarrow> r \<noteq> 0 \<and> r \<ge> 1100 \<and> r \<le> 2300)"

definition isNearby :: "real \<Rightarrow> Problem \<Rightarrow> bool" where
  "isNearby targetRating p \<longleftrightarrow>
     (case prating p of None \<Rightarrow> False
      | Some r \<Rightarrow> if r = 0 then False else (let diff = \<bar>r - targetRating\<bar> in diff \<le> 100))"

definition isPreferred :: "Category set \<Rightarrow> Problem \<Rightarrow> bool" where
  "isPreferred usedCategories p \<longleftrightarrow>
     (case tags p of [] \<Rightarrow> False | primaryTag # _ \<Rightarrow> primaryTag \<noteq> [] \<and> primaryTag \<notin> usedCategories)"

text \<open>\<open>xs.sort((a, b) => b.popularity - a.popularity)\<close>: a stable sort, most popular first.\<close>

definition sortByPopularity :: "Problem list \<Rightarrow> Problem list" where
  "sortByPopularity xs = sort_key (\<lambda>p. - popularity p) xs"

text \<open>
  The loop over the target ratings, with its \<open>break\<close> and \<open>continue\<close>; the state is the list
  \<open>selected\<close> and the set \<open>usedCategories\<close>. \<open>count\<close> is the number of problems to select, a
  natural number; the callers supply the defaults \<open>count = 8\<close> and \<open>solvedSlugs = {}\<close>.
\<close>

fun selectTargets ::
  "Problem list \<Rightarrow> nat \<Rightarrow> real list \<Rightarrow> Problem list \<Rightarrow> Category set \<Rightarrow> Problem list \<times> Category set"
where
  "selectTargets candidates count [] selected usedCategories = (selected, usedCategories)"
| "selectTargets candidates count (targetRating # rest) selected usedCategories =
     (if length selected \<ge> count then (selected, usedCategories)
      else
        let nearbyProblems = filter (isNearby targetRating) candidates
        in if nearbyProblems = [] then selectTargets candidates count rest selected usedCategories
           else
             let preferredProblems = filter (isPreferred usedCategories) nearbyProblems;
                 pool = (if preferredProblems \<noteq> [] then preferredProblems else nearbyProblems);
                 chosen = hd (sortByPopularity pool)
             in selectTargets candidates count rest (selected @ [chosen])
                  (case tags chosen of [] \<Rightarrow> usedCategories
                   | t # _ \<Rightarrow> if t \<noteq> [] then insert t usedCategories else usedCategories))"

text \<open>The fill step: the most popular candidates whose slug is not selected yet.\<close>

definition fillRemaining :: "Problem list \<Rightarrow> nat \<Rightarrow> Problem list \<Rightarrow> Problem list" where
  "fillRemaining candidates count selected =
     (if length selected < count then
        let selectedSlugs = set (map slug selected);
            remaining = sortByPopularity (filter (\<lambda>p. slug p \<notin> selectedSlugs) candidates)
        in selected @ take (count - length selected) remaining
      else selected)"

text \<open>
  Fisher-Yates: \<open>for (i = length - 1; i > 0; i--)\<close> with \<open>j = floor (random() * (i + 1))\<close>;
  both elements are read before either is written.
\<close>

fun shuffleFrom :: "nat \<Rightarrow> 'a list \<Rightarrow> world \<Rightarrow> 'a list \<times> world" where
  "shuffleFrom 0 shuffled w = (shuffled, w)"
| "shuffleFrom (Suc i) shuffled w =
     (let (u, w') = Math_random w;
          j = nat \<lfloor>u * real (Suc i + 1)\<rfloor>
      in shuffleFrom i (shuffled[Suc i := shuffled ! j, j := shuffled ! Suc i]) w')"

definition shuffleArray :: "'a list \<Rightarrow> world \<Rightarrow> 'a list \<times> world" where
  "shuffleArray array w = shuffleFrom (length array - 1) array w"

definition selectCalibrationProblems ::
  "Problem list \<Rightarrow> nat \<Rightarrow> string set \<Rightarrow> world \<Rightarrow> Problem list \<times> world"
where
  "selectCalibrationProblems allProblems count solvedSlugs w =
     (let candidates = filter (isCandidate solvedSlugs) allProblems
      in if candidates = [] then ([], w)
         else
           let selected = fst (selectTargets candidates count CALIBRATION_TARGET_RATINGS [] {})
           in shuffleArray (fillRemaining candidates count selected) w)"

section \<open>Example inputs\<close>

definition p1200 :: Problem where
  "p1200 = \<lparr>slug = ''two-sum'', title = ''Two Sum'', prating = Some 1200, tags = [''Array''],
            isPaid = None, popularity = 2\<rparr>"

definition p1300 :: Problem where
  "p1300 = \<lparr>slug = ''a'', title = ''A'', prating = Some 1300, tags = [''Array''],
            isPaid = None, popularity = 1\<rparr>"

definition p1700 :: Problem where
  "p1700 = \<lparr>slug = ''b'', title = ''B'', prating = Some 1700, tags = [''Array''],
            isPaid = None, popularity = 3\<rparr>"



text \<open>An environment with the clock frozen at \<open>now\<close> and a random source that always returns \<open>u\<close>.\<close>

definition frozen :: "real \<Rightarrow> real \<Rightarrow> world" where
  "frozen now u = \<lparr>clock = sconst now, random = sconst u\<rparr>"

text \<open>A new rating, as \<open>initializeRating\<close> creates it at time 1000.\<close>

definition newRating :: UserRating where
  "newRating = \<lparr>rating = DEFAULT_RATING, rd = DEFAULT_RD, volatility = DEFAULT_VOLATILITY,
                 lastUpdated = Some 1000, solveCount = 0\<rparr>"


text \<open>
  A rating that satisfies the invariants and was last updated one rating period (365 days)
  after the time 1000.
\<close>

definition futureRating :: UserRating where
  "futureRating = \<lparr>rating = Num 1500, rd = Num 30, volatility = Num (fl 0.06),
                    lastUpdated = Some 31536001000, solveCount = 7\<rparr>"


section \<open>Auxiliary definitions\<close>



section \<open>Properties\<close>

subsection \<open>Rounding to the nearest double\<close>

lemma roundEven_of_int [simp]: "roundEven (of_int n) = n"
  by (simp add: roundEven_def)

lemma roundEven_bounds: "\<lfloor>y\<rfloor> \<le> roundEven y \<and> roundEven y \<le> \<lfloor>y\<rfloor> + 1"
  by (simp add: roundEven_def Let_def)

lemma roundEven_mono: "x \<le> y \<Longrightarrow> roundEven x \<le> roundEven y"
proof -
  assume xy: "x \<le> y"
  then have fl: "\<lfloor>x\<rfloor> \<le> \<lfloor>y\<rfloor>" by (rule floor_mono)
  show ?thesis
  proof (cases "\<lfloor>x\<rfloor> = \<lfloor>y\<rfloor>")
    case True
    then show ?thesis using xy by (auto simp: roundEven_def Let_def)
  next
    case False
    with fl have "\<lfloor>x\<rfloor> + 1 \<le> \<lfloor>y\<rfloor>" by simp
    with roundEven_bounds [of x] roundEven_bounds [of y] show ?thesis by linarith
  qed
qed

lemma roundEven_unique:
  "of_int n - 1 / 2 < y \<Longrightarrow> y < of_int n + 1 / 2 \<Longrightarrow> roundEven y = n"
proof -
  assume a: "of_int n - 1 / 2 < y" and b: "y < of_int n + 1 / 2"
  show ?thesis
  proof (cases "of_int n \<le> y")
    case True
    then have "\<lfloor>y\<rfloor> = n" using b by (intro floor_unique) simp_all
    then show ?thesis using b by (simp add: roundEven_def)
  next
    case False
    then have "\<lfloor>y\<rfloor> = n - 1" using a by (intro floor_unique) simp_all
    then show ?thesis using a by (simp add: roundEven_def)
  qed
qed

lemma roundEven_minus: "roundEven (- y) = - roundEven y"
proof (cases "y = of_int \<lfloor>y\<rfloor>")
  case True
  then obtain n where "y = of_int n" ..
  then have "- y = of_int (- n)" by simp
  then show ?thesis using \<open>y = of_int n\<close> by (simp only: roundEven_of_int)
next
  case False
  then have lt: "of_int \<lfloor>y\<rfloor> < y" using of_int_floor_le [of y] by linarith
  have y1: "y < of_int \<lfloor>y\<rfloor> + 1" by linarith
  have f: "\<lfloor>- y\<rfloor> = - \<lfloor>y\<rfloor> - 1"
  proof (rule floor_unique)
    show "of_int (- \<lfloor>y\<rfloor> - 1) \<le> - y" using y1 by linarith
    show "- y < of_int (- \<lfloor>y\<rfloor> - 1) + 1" using lt by linarith
  qed
  have "even (- \<lfloor>y\<rfloor> - 1) \<longleftrightarrow> odd \<lfloor>y\<rfloor>" by simp
  then show ?thesis
    using lt y1 unfolding roundEven_def Let_def f by (auto simp: algebra_simps)
qed

lemma floor_log2_powi:
  assumes "0 < x"
  shows "\<lfloor>log 2 x\<rfloor> = k \<longleftrightarrow> 2 powi k \<le> x \<and> x < 2 powi (k + 1)"
proof -
  have a: "(2::real) powr real_of_int k = 2 powi k"
    by (rule powr_real_of_int') simp_all
  have b: "(2::real) powr real_of_int (k + 1) = 2 powi (k + 1)"
    by (rule powr_real_of_int') simp_all
  have "\<lfloor>log 2 x\<rfloor> = k \<longleftrightarrow> 2 powr real_of_int k \<le> x \<and> x < 2 powr real_of_int (k + 1)"
    by (rule floor_log_eq_powr_iff [OF assms]) simp
  then show ?thesis unfolding a b .
qed

lemma power_int_2_less_cancel: "(2::real) powi a < 2 powi b \<Longrightarrow> a < b"
proof (rule ccontr)
  assume l: "(2::real) powi a < 2 powi b" and "\<not> a < b"
  then have "b \<le> a" by simp
  then have "(2::real) powi b \<le> 2 powi a" by (rule power_int_increasing) simp
  with l show False by simp
qed

lemma binade_eqI:
  assumes "2 powi k \<le> \<bar>x\<bar>" and "\<bar>x\<bar> < 2 powi (k + 1)"
  shows "binade x = k"
proof -
  have pos: "0 < \<bar>x\<bar>"
  proof -
    have "(0::real) < 2 powi k" by simp
    with assms(1) show ?thesis by linarith
  qed
  have "\<lfloor>log 2 \<bar>x\<bar>\<rfloor> = k"
    using assms by (simp only: floor_log2_powi [OF pos])
  then show ?thesis by (simp add: binade_def)
qed

lemma binade_bounds:
  assumes "x \<noteq> 0"
  shows "2 powi (binade x) \<le> \<bar>x\<bar> \<and> \<bar>x\<bar> < 2 powi (binade x + 1)"
proof -
  have pos: "0 < \<bar>x\<bar>" using assms by simp
  have "\<lfloor>log 2 \<bar>x\<bar>\<rfloor> = binade x" by (simp add: binade_def)
  then show ?thesis by (simp only: floor_log2_powi [OF pos])
qed

lemma binade_minus [simp]: "binade (- x) = binade x"
  by (simp add: binade_def)

lemma quantum_minus [simp]: "quantum (- x) = quantum x"
  by (simp add: quantum_def)

lemma quantum_pos [simp]: "0 < quantum x"
  by (simp add: quantum_def)

lemma fl_minus: "fl (- x) = - fl x"
  by (simp add: fl_def roundEven_minus)

lemma fl_eval:
  assumes "2 powi k \<le> \<bar>x\<bar>" and "\<bar>x\<bar> < 2 powi (k + 1)" and "- 1022 \<le> k"
  shows "fl x = of_int (roundEven (x / 2 powi (k - 52))) * 2 powi (k - 52)"
proof -
  have b: "binade x = k" by (rule binade_eqI [OF assms(1,2)])
  have "(0::real) < 2 powi k" by simp
  with assms(1) have "0 < \<bar>x\<bar>" by linarith
  then have "x \<noteq> 0" by simp
  then show ?thesis using assms(3) by (simp add: fl_def quantum_def b max_def)
qed

lemma fl_repr:
  assumes m: "\<bar>m\<bar> < 2 ^ 53" and e: "- 1074 \<le> e"
  shows "fl (of_int m * 2 powi e) = of_int m * 2 powi e"
proof (cases "m = 0")
  case True
  then show ?thesis by (simp add: fl_def)
next
  case False
  define x :: real where "x = of_int m * 2 powi e"
  have x0: "x \<noteq> 0" using False by (simp add: x_def)
  define p where "p = max (binade x) (- 1022) - 52"
  have q: "quantum x = 2 powi p" by (simp add: quantum_def p_def)
  have ax: "\<bar>x\<bar> = of_int \<bar>m\<bar> * 2 powi e" by (simp add: x_def abs_mult)
  have "real_of_int \<bar>m\<bar> < 2 ^ 53" using m by (metis of_int_less_iff of_int_numeral of_int_power)
  then have "\<bar>x\<bar> < 2 ^ 53 * 2 powi e" unfolding ax by (intro mult_strict_right_mono) simp_all
  also have "\<dots> = 2 powi (53 + e)" by (simp add: power_int_add)
  finally have "2 powi (binade x) < (2::real) powi (53 + e)"
    using binade_bounds [OF x0] by linarith
  then have "binade x < 53 + e" by (rule power_int_2_less_cancel)
  then have pe: "p \<le> e" using e by (simp add: p_def)
  have "x / 2 powi p = of_int m * 2 powi (e - p)"
    by (simp add: x_def power_int_diff)
  also have "\<dots> = of_int (m * 2 ^ nat (e - p))"
    using pe by (simp add: power_int_def)
  finally have d: "x / 2 powi p = of_int (m * 2 ^ nat (e - p))" .
  have "fl x = of_int (roundEven (x / 2 powi p)) * 2 powi p"
    using x0 by (simp add: fl_def q)
  also have "\<dots> = (x / 2 powi p) * 2 powi p"
    unfolding d roundEven_of_int ..
  also have "\<dots> = x" by simp
  finally show ?thesis by (simp add: x_def)
qed

lemma fl_of_int: "\<bar>m\<bar> < 2 ^ 53 \<Longrightarrow> fl (of_int m) = of_int m"
  using fl_repr [of m 0] by simp

lemma binade_mono: "0 < x \<Longrightarrow> x \<le> y \<Longrightarrow> binade x \<le> binade y"
  unfolding binade_def by (intro floor_mono) simp

lemma quantum_nonneg [simp]: "0 \<le> quantum x"
  using quantum_pos [of x] by (rule less_imp_le)

lemma powi_split_52: "(2::real) powi b = 2 ^ 52 * 2 powi (b - 52)"
  by (simp add: power_int_diff)

lemma powi_split_53: "(2::real) powi (b + 1) = 2 ^ 53 * 2 powi (b - 52)"
  by (simp add: power_int_diff power_int_add)

lemma fl_upper:
  assumes "0 < x"
  shows "fl x \<le> 2 powi (max (binade x) (- 1022) + 1)"
proof -
  define E where "E = max (binade x) (- 1022)"
  define q :: real where "q = 2 powi (E - 52)"
  have q: "quantum x = q" "0 < q" by (simp_all add: quantum_def E_def q_def)
  have fx: "fl x = real_of_int (roundEven (x / q)) * q"
    using assms by (simp add: fl_def q)
  have "x < 2 powi (binade x + 1)" using binade_bounds [of x] assms by simp
  also have "\<dots> \<le> 2 powi (E + 1)" by (rule power_int_increasing) (simp_all add: E_def)
  also have "\<dots> = 2 ^ 53 * q" unfolding q_def by (rule powi_split_53)
  finally have "x / q \<le> 2 ^ 53" using q(2) by (simp add: field_simps)
  also have "(2::real) ^ 53 = of_int (2 ^ 53)" by simp
  finally have "roundEven (x / q) \<le> roundEven (of_int (2 ^ 53))"
    by (rule roundEven_mono)
  then have "roundEven (x / q) \<le> 2 ^ 53" by (simp only: roundEven_of_int)
  then have "real_of_int (roundEven (x / q)) \<le> real_of_int (2 ^ 53)"
    by (simp only: of_int_le_iff)
  then have "real_of_int (roundEven (x / q)) * q \<le> real_of_int (2 ^ 53) * q"
    using q(2) by (intro mult_right_mono) simp_all
  also have "real_of_int (2 ^ 53) * q = 2 powi (E + 1)"
    unfolding q_def powi_split_53 by simp
  finally show ?thesis unfolding fx E_def .
qed

lemma fl_lower:
  assumes "0 < x" and "- 1022 \<le> binade x"
  shows "2 powi (binade x) \<le> fl x"
proof -
  define b where "b = binade x"
  define q :: real where "q = 2 powi (b - 52)"
  have q: "quantum x = q" "0 < q" using assms(2) by (simp_all add: quantum_def b_def q_def max_def)
  have fx: "fl x = real_of_int (roundEven (x / q)) * q"
    using assms by (simp add: fl_def q)
  have s: "2 powi b = 2 ^ 52 * q" unfolding q_def by (rule powi_split_52)
  have "2 powi b \<le> x" using binade_bounds [of x] assms by (simp add: b_def)
  then have "2 ^ 52 \<le> x / q" unfolding s using q(2) by (simp add: field_simps)
  moreover have "(2::real) ^ 52 = of_int (2 ^ 52)" by simp
  ultimately have "of_int (2 ^ 52) \<le> x / q" by simp
  then have "roundEven (of_int (2 ^ 52)) \<le> roundEven (x / q)"
    by (rule roundEven_mono)
  then have "2 ^ 52 \<le> roundEven (x / q)" by (simp only: roundEven_of_int)
  then have "real_of_int (2 ^ 52) \<le> real_of_int (roundEven (x / q))"
    by (simp only: of_int_le_iff)
  then have "real_of_int (2 ^ 52) * q \<le> real_of_int (roundEven (x / q)) * q"
    using q(2) by (intro mult_right_mono) simp_all
  moreover have "real_of_int (2 ^ 52) * q = 2 powi b"
    unfolding s by simp
  ultimately show ?thesis unfolding fx b_def by simp
qed

lemma fl_mono_pos:
  assumes "0 < x" and "x \<le> y"
  shows "fl x \<le> fl y"
proof -
  have y: "0 < y" using assms by simp
  define Ex where "Ex = max (binade x) (- 1022)"
  define Ey where "Ey = max (binade y) (- 1022)"
  have le: "Ex \<le> Ey" using binade_mono [OF assms] by (simp add: Ex_def Ey_def)
  show ?thesis
  proof (cases "Ex = Ey")
    case True
    then have q: "quantum y = quantum x" by (simp add: quantum_def Ex_def Ey_def)
    have "x / quantum x \<le> y / quantum x" using assms by (intro divide_right_mono) simp_all
    then have "roundEven (x / quantum x) \<le> roundEven (y / quantum x)" by (rule roundEven_mono)
    then have "real_of_int (roundEven (x / quantum x)) * quantum x
               \<le> real_of_int (roundEven (y / quantum x)) * quantum x"
      by (intro mult_right_mono) simp_all
    then show ?thesis using assms y by (simp add: fl_def q)
  next
    case False
    with le have lt: "Ex + 1 \<le> Ey" by simp
    then have n: "- 1022 \<le> binade y" "Ey = binade y" by (simp_all add: Ex_def Ey_def)
    have "fl x \<le> 2 powi (Ex + 1)" unfolding Ex_def by (rule fl_upper [OF assms(1)])
    also have "\<dots> \<le> 2 powi Ey" using lt by (rule power_int_increasing) simp
    also have "\<dots> \<le> fl y" unfolding n(2) by (rule fl_lower [OF y n(1)])
    finally show ?thesis .
  qed
qed

lemma fl_nonneg: "0 \<le> x \<Longrightarrow> 0 \<le> fl x"
proof -
  assume "0 \<le> x"
  then have "0 \<le> x / quantum x" by (intro divide_nonneg_nonneg) simp_all
  then have "roundEven 0 \<le> roundEven (x / quantum x)" by (rule roundEven_mono)
  moreover have "roundEven 0 = 0" using roundEven_of_int [of 0] by simp
  ultimately have "0 \<le> real_of_int (roundEven (x / quantum x)) * quantum x" by simp
  then show ?thesis by (simp add: fl_def)
qed

lemma fl_mono: "x \<le> y \<Longrightarrow> fl x \<le> fl y"
proof -
  assume xy: "x \<le> y"
  consider "0 < x" | "x \<le> 0" "0 \<le> y" | "y < 0" by linarith
  then show ?thesis
  proof cases
    case 1
    then show ?thesis using xy by (rule fl_mono_pos)
  next
    case 2
    have "fl (- x) \<ge> 0" using 2 by (intro fl_nonneg) simp
    then have "fl x \<le> 0" by (simp add: fl_minus)
    also have "0 \<le> fl y" using 2 by (intro fl_nonneg)
    finally show ?thesis .
  next
    case 3
    have "fl (- y) \<le> fl (- x)" using 3 xy by (intro fl_mono_pos) simp_all
    then show ?thesis by (simp add: fl_minus)
  qed
qed

subsection \<open>Rounding of the numbers that the examples use\<close>

lemma overflow_gt: "x \<le> 2 ^ 64 \<Longrightarrow> x < overflow"
proof -
  have "(2::real) ^ 64 < 2 ^ 1024" by (rule power_strict_increasing) simp_all
  then show "x \<le> 2 ^ 64 \<Longrightarrow> x < overflow" by (simp add: overflow_def)
qed

lemma rnd_Num: "\<bar>fl x\<bar> \<le> 2 ^ 64 \<Longrightarrow> rnd (Num x) = Num (fl x)"
proof -
  assume a: "\<bar>fl x\<bar> \<le> 2 ^ 64"
  then have "fl x < overflow" "- fl x < overflow" by (intro overflow_gt; simp)+
  then show ?thesis by simp
qed

lemma fl_7_10: "fl (7 / 10) = 3152519739159347 / 4503599627370496"
proof -
  have "fl (7 / 10) = of_int (roundEven ((7 / 10) / 2 powi (- 1 - 52))) * 2 powi (- 1 - 52)"
    by (rule fl_eval) (simp_all add: power_int_minus)
  moreover have "roundEven ((7 / 10) / 2 powi (- 1 - 52)) = 6305039478318694"
    by (rule roundEven_unique) (simp_all add: power_int_minus)
  ultimately show ?thesis by (simp add: power_int_minus)
qed

lemma fl_3_10: "fl (3 / 10) = 5404319552844595 / 18014398509481984"
proof -
  have "fl (3 / 10) = of_int (roundEven ((3 / 10) / 2 powi (- 2 - 52))) * 2 powi (- 2 - 52)"
    by (rule fl_eval) (simp_all add: power_int_minus)
  moreover have "roundEven ((3 / 10) / 2 powi (- 2 - 52)) = 5404319552844595"
    by (rule roundEven_unique) (simp_all add: power_int_minus)
  ultimately show ?thesis by (simp add: power_int_minus)
qed

lemma fl_65_100: "fl (13 / 20) = 5854679515581645 / 9007199254740992"
proof -
  have "fl (13 / 20) = of_int (roundEven ((13 / 20) / 2 powi (- 1 - 52))) * 2 powi (- 1 - 52)"
    by (rule fl_eval) (simp_all add: power_int_minus)
  moreover have "roundEven ((13 / 20) / 2 powi (- 1 - 52)) = 5854679515581645"
    by (rule roundEven_unique) (simp_all add: power_int_minus)
  ultimately show ?thesis by (simp add: power_int_minus)
qed

lemma fl_exact_small [simp]: "fl 1 = 1" "fl 2 = 2" "fl 3 = 3" "fl (1 / 2) = 1 / 2" "fl (3 / 2) = 3 / 2"
  using fl_of_int [of 1] fl_of_int [of 2] fl_of_int [of 3] fl_repr [of 1 "- 1"] fl_repr [of 3 "- 1"]
  by (simp_all add: power_int_minus)

lemma fl_c7 [simp]: "fl (3152519739159347 / 4503599627370496) = 3152519739159347 / 4503599627370496"
  using fl_repr [of 3152519739159347 "- 52"] by (simp add: power_int_minus)

lemma fl_c35 [simp]: "fl (3152519739159347 / 9007199254740992) = 3152519739159347 / 9007199254740992"
  using fl_repr [of 3152519739159347 "- 53"] by (simp add: power_int_minus)

lemma fl_c30 [simp]: "fl (1351079888211149 / 4503599627370496) = 1351079888211149 / 4503599627370496"
  using fl_repr [of 1351079888211149 "- 52"] by (simp add: power_int_minus)

lemma fl_c65 [simp]: "fl (5854679515581645 / 9007199254740992) = 5854679515581645 / 9007199254740992"
  using fl_repr [of 5854679515581645 "- 53"] by (simp add: power_int_minus)

subsection \<open>Order and rounding on \<open>num\<close>\<close>



lemma fl_zero [simp]: "fl 0 = 0"
  by (simp add: fl_def)











lemma num_le_refl: "a \<noteq> NaN \<Longrightarrow> a \<le> a"
  by (cases a) auto

lemma num_le_NaN [simp]: "\<not> a \<le> NaN" "\<not> NaN \<le> a"
  by (cases a; simp)+

lemma num_le_trans: "a \<le> b \<Longrightarrow> b \<le> c \<Longrightarrow> a \<le> c" for a b c :: num
  by (cases a; cases b; cases c) auto


lemma rnd_exact: "fl x = x \<Longrightarrow> \<bar>x\<bar> \<le> 2 ^ 64 \<Longrightarrow> rnd (Num x) = Num x"
  using rnd_Num [of x] by simp

lemma rnd_of_int:
  assumes "\<bar>m\<bar> < 2 ^ 53"
  shows "rnd (Num (of_int m)) = Num (of_int m)"
proof (rule rnd_exact)
  show "fl (of_int m) = of_int m" by (rule fl_of_int [OF assms])
  have "\<bar>m\<bar> \<le> 2 ^ 64" using assms by simp
  then have "real_of_int \<bar>m\<bar> \<le> real_of_int (2 ^ 64)" by (simp only: of_int_le_iff)
  then show "\<bar>real_of_int m\<bar> \<le> 2 ^ 64" by simp
qed

lemma rnd_numeral: "(numeral n :: int) < 2 ^ 53 \<Longrightarrow> rnd (Num (numeral n)) = Num (numeral n)"
  using rnd_of_int [of "numeral n"] by simp

lemma rnd_neg_numeral:
  "(numeral n :: int) < 2 ^ 53 \<Longrightarrow> rnd (Num (- numeral n)) = Num (- numeral n)"
  using rnd_of_int [of "- numeral n"] by simp

lemma rnd_one [simp]: "rnd (Num 1) = Num 1"
  by (simp add: rnd_Num del: rnd.simps)

subsection \<open>The frozen environment\<close>

lemma random_ok_frozen: "random_ok (frozen now u) \<longleftrightarrow> 0 \<le> u \<and> u < 1"
  by (simp add: random_ok_def frozen_def)

subsection \<open>Time limit\<close>

text \<open>
  C7. With the default \<open>baseMinutes\<close>, \<open>determineTimeLimit\<close> returns exactly 1200 seconds for
  every problem rating, in particular for a rating of 2000, and for the rating that
  \<open>createTimedAttempt\<close> passes, which is 1500 when the problem has none.
\<close>

theorem determineTimeLimit_fixed:
  "determineTimeLimit r None = 1200
   \<and> determineTimeLimit 2000 None = 1200
   \<and> att_timeLimit (createTimedAttempt problem t c now) = 1200
   \<and> att_problemRating (createTimedAttempt (problem\<lparr>prating := None\<rparr>) t c now) = 1500"
  by (simp add: determineTimeLimit_def BASE_TIME_MINUTES_def createTimedAttempt_def Let_def)

subsection \<open>Partial credit\<close>

lemma credit_ratio_cases:
  assumes "0 < t" and "0 < L"
  shows "rnd (Num t / Num L) \<noteq> NaN"
proof -
  have "Num t / Num L = Num (t / L)" using assms by simp
  then show ?thesis by (simp del: divide_num_def)
qed

lemma num_not_le: "a \<noteq> NaN \<Longrightarrow> b \<noteq> NaN \<Longrightarrow> \<not> a \<le> b \<longleftrightarrow> b < a" for a b :: num
  by (cases a; cases b) auto

lemma credit_at_ratio:
  assumes "rnd (Num t / Num L) = Num q"
  shows "calculatePartialCredit (Num t) (Num L) True
           = (if q \<le> 1 then Num 1 else if q \<le> 2 then rnd (Num 1 - rnd (rnd (Num q - Num 1) * Num (fl 0.7))) else Num 0)"
  unfolding calculatePartialCredit_def Let_def assms by simp

text \<open>
  C2, as stated, gives 0.3 as the credit at ratio 2.0. In double arithmetic
  \<open>1.0 - (2.0 - 1.0) * 0.7\<close> is \<open>0.30000000000000004\<close>, the double next above the double
  nearest to 0.3: a solve that took 2400 seconds against a limit of 1200 seconds earns
  neither the number 0.3 nor the double that the literal \<open>0.3\<close> denotes.
\<close>

theorem calculatePartialCredit_boundary_counterexample:
  "calculatePartialCredit (Num 2400) (Num 1200) True = Num (1351079888211149 / 4503599627370496)
   \<and> calculatePartialCredit (Num 2400) (Num 1200) True \<noteq> Num 0.3
   \<and> calculatePartialCredit (Num 2400) (Num 1200) True \<noteq> Num (fl 0.3)"
proof -
  have "rnd (Num 2400 / Num 1200) = Num 2" by (simp add: rnd_Num del: rnd.simps)
  then have "calculatePartialCredit (Num 2400) (Num 1200) True = Num (1351079888211149 / 4503599627370496)"
    by (simp add: credit_at_ratio fl_7_10 rnd_Num del: rnd.simps divide_num_def)
  then show ?thesis by (simp add: fl_3_10)
qed

text \<open>
  C2, amended. For positive \<open>timeUsed\<close> and \<open>timeLimit\<close>, \<open>calculatePartialCredit\<close> is 0 for
  an attempt that was not completed. For a completed one, with \<open>ratio\<close> the quotient
  \<open>timeUsed / timeLimit\<close> rounded to a double, it is 1 for \<open>ratio \<le> 1\<close>, the expression
  \<open>1.0 - (ratio - 1.0) * 0.7\<close> evaluated in double arithmetic for \<open>1 < ratio \<le> 2\<close>, and 0 for
  \<open>ratio > 2\<close>. Using exactly the time limit earns 1, one and a half times the limit earns
  the double 0.65, twice the limit earns \<open>0.30000000000000004\<close> (the double 0.3 plus
  \<open>2 ^ (- 54)\<close>), and three times the limit earns 0.
\<close>

theorem calculatePartialCredit_spec:
  assumes "0 < t" and "0 < L"
  shows "calculatePartialCredit (Num t) (Num L) False = Num 0
    \<and> (rnd (Num t / Num L) \<le> Num 1 \<longrightarrow> calculatePartialCredit (Num t) (Num L) True = Num 1)
    \<and> (Num 1 < rnd (Num t / Num L) \<and> rnd (Num t / Num L) \<le> Num 2 \<longrightarrow>
          calculatePartialCredit (Num t) (Num L) True
            = rnd (Num 1 - rnd (rnd (rnd (Num t / Num L) - Num 1) * Num (fl 0.7))))
    \<and> (Num 2 < rnd (Num t / Num L) \<longrightarrow> calculatePartialCredit (Num t) (Num L) True = Num 0)
    \<and> calculatePartialCredit (Num L) (Num L) True = Num 1
    \<and> calculatePartialCredit (Num (1.5 * L)) (Num L) True = Num (fl 0.65)
    \<and> calculatePartialCredit (Num (2 * L)) (Num L) True = Num (fl 0.3 + 2 powi (- 54))
    \<and> calculatePartialCredit (Num (3 * L)) (Num L) True = Num 0"
proof -
  have r: "1.5 * L / L = 3 / 2" "2 * L / L = 2" "3 * L / L = 3" "L / L = 1"
    using assms by simp_all
  have q: "Num (1.5 * L) / Num L = Num (3 / 2)" "Num (2 * L) / Num L = Num 2"
    "Num (3 * L) / Num L = Num 3" "Num L / Num L = Num 1"
    using assms r by simp_all
  have rq: "rnd (Num (1.5 * L) / Num L) = Num (3 / 2)" "rnd (Num (2 * L) / Num L) = Num 2"
    "rnd (Num (3 * L) / Num L) = Num 3" "rnd (Num L / Num L) = Num 1"
    unfolding q by (simp_all add: rnd_Num del: rnd.simps)
  have n: "rnd (Num t / Num L) \<noteq> NaN" by (rule credit_ratio_cases [OF assms])
  have 1: "calculatePartialCredit (Num t) (Num L) False = Num 0"
    by (simp add: calculatePartialCredit_def)
  have 2: "rnd (Num t / Num L) \<le> Num 1 \<longrightarrow> calculatePartialCredit (Num t) (Num L) True = Num 1"
    by (simp add: calculatePartialCredit_def Let_def del: divide_num_def less_eq_num_def)
  have 3: "Num 1 < rnd (Num t / Num L) \<and> rnd (Num t / Num L) \<le> Num 2 \<longrightarrow>
          calculatePartialCredit (Num t) (Num L) True
            = rnd (Num 1 - rnd (rnd (rnd (Num t / Num L) - Num 1) * Num (fl 0.7)))"
  proof
    assume a: "Num 1 < rnd (Num t / Num L) \<and> rnd (Num t / Num L) \<le> Num 2"
    then have n1: "\<not> rnd (Num t / Num L) \<le> Num 1"
      by (cases "rnd (Num t / Num L)") (simp_all del: rnd.simps divide_num_def)
    from a have n2: "rnd (Num t / Num L) \<le> Num 2" ..
    show "calculatePartialCredit (Num t) (Num L) True
            = rnd (Num 1 - rnd (rnd (rnd (Num t / Num L) - Num 1) * Num (fl 0.7)))"
      by (simp only: calculatePartialCredit_def Let_def n1 n2 if_False if_True simp_thms)
  qed
  have 4: "Num 2 < rnd (Num t / Num L) \<longrightarrow> calculatePartialCredit (Num t) (Num L) True = Num 0"
  proof
    assume a: "Num 2 < rnd (Num t / Num L)"
    then have "\<not> rnd (Num t / Num L) \<le> Num 2" "\<not> rnd (Num t / Num L) \<le> Num 1"
      by (cases "rnd (Num t / Num L)"; simp)+
    then show "calculatePartialCredit (Num t) (Num L) True = Num 0"
      by (simp add: calculatePartialCredit_def Let_def
          del: divide_num_def less_eq_num_def less_num_def minus_num_def times_num_def)
  qed
  have 5: "calculatePartialCredit (Num L) (Num L) True = Num 1"
    unfolding credit_at_ratio [OF rq(4)] by simp
  have 6: "calculatePartialCredit (Num (1.5 * L)) (Num L) True = Num (fl 0.65)"
    unfolding credit_at_ratio [OF rq(1)]
    by (simp add: fl_7_10 fl_65_100 rnd_Num del: rnd.simps)
  have 7: "calculatePartialCredit (Num (2 * L)) (Num L) True = Num (fl 0.3 + 2 powi (- 54))"
    unfolding credit_at_ratio [OF rq(2)]
    by (simp add: fl_7_10 fl_3_10 rnd_Num power_int_minus del: rnd.simps)
  have 8: "calculatePartialCredit (Num (3 * L)) (Num L) True = Num 0"
    unfolding credit_at_ratio [OF rq(3)] by simp
  show ?thesis using 1 2 3 4 5 6 7 8 by blast
qed

theorem calculatePartialCredit_spec_witness:
  "(0::real) < 1800 \<and> (0::real) < 1200
   \<and> Num 1 < rnd (Num 1800 / Num 1200) \<and> rnd (Num 1800 / Num 1200) \<le> Num 2
   \<and> calculatePartialCredit (Num 1800) (Num 1200) True = Num (fl 0.65)
   \<and> calculatePartialCredit (Num 1800) (Num 1200) True
       = rnd (Num 1 - rnd (rnd (rnd (Num 1800 / Num 1200) - Num 1) * Num (fl 0.7)))
   \<and> calculatePartialCredit (Num 1800) (Num 1200) False = Num 0
   \<and> calculatePartialCredit (Num 2400) (Num 1200) True = Num (fl 0.3 + 2 powi (- 54))
   \<and> calculatePartialCredit (Num 3600) (Num 1200) True = Num 0"
proof -
  have p: "(0::real) < 1800" "(0::real) < 1200" by simp_all
  have e: "(1.5::real) * 1200 = 1800" "(2::real) * 1200 = 2400" "(3::real) * 1200 = 3600"
    by simp_all
  have q: "rnd (Num 1800 / Num 1200) = Num (3 / 2)" by (simp add: rnd_Num del: rnd.simps)
  have c: "Num 1 < rnd (Num 1800 / Num 1200) \<and> rnd (Num 1800 / Num 1200) \<le> Num 2"
    unfolding q by simp
  note T = calculatePartialCredit_spec [OF p, unfolded e]
  from T c p show ?thesis by blast
qed

subsection \<open>Time decay\<close>

lemma fl_numeral: "(numeral n :: int) < 2 ^ 53 \<Longrightarrow> fl (numeral n) = numeral n"
  using fl_of_int [of "numeral n"] by simp

lemma msPerPeriod:
  "rnd (rnd (rnd (rnd (RATING_PERIOD_DAYS * Num 24) * Num 60) * Num 60) * Num 1000) = Num 31536000000"
  by (simp add: RATING_PERIOD_DAYS_def rnd_Num fl_numeral del: rnd.simps)

lemma cSquared: "rnd (C_PARAMETER * C_PARAMETER) = Num 2500"
  by (simp add: C_PARAMETER_def rnd_Num fl_numeral del: rnd.simps)

lemma applyTimeDecay_set:
  assumes "lastUpdated r = Some t0" and "t0 \<noteq> 0"
  shows "applyTimeDecay r now =
           r\<lparr>rd := Math_round (Math_min (rnd (Math_sqrt (decayRadicand (rd r) t0 now))) (Num 350)),
             lastUpdated := Some now\<rparr>"
  unfolding applyTimeDecay_def Let_def msPerPeriod cSquared decayRadicand_def DEFAULT_RD_def
  using assms by simp


lemma decayRadicand_NaN [simp]: "decayRadicand NaN t0 now = NaN"
  by (simp add: decayRadicand_def)















subsection \<open>The volatility solver on a tie against an equally rated problem\<close>






lemma epsilon_bounds: "1 / 2 ^ 20 \<le> fl 0.000001 \<and> fl 0.000001 \<le> 1 / 2 ^ 19"
proof -
  have a: "fl (1 / 2 ^ 20) = 1 / 2 ^ 20" using fl_repr [of 1 "- 20"] by (simp add: power_int_minus)
  have b: "fl (1 / 2 ^ 19) = 1 / 2 ^ 19" using fl_repr [of 1 "- 19"] by (simp add: power_int_minus)
  from fl_mono [of "1 / 2 ^ 20" "0.000001"] fl_mono [of "0.000001" "1 / 2 ^ 19"]
  show ?thesis unfolding a b by simp
qed





lemma Math_max_Num [simp]: "Math_max (Num a) (Num b) = Num (max a b)"
  by (simp add: Math_max_def max_def)

lemma Math_min_Num [simp]: "Math_min (Num a) (Num b) = Num (min a b)"
  by (simp add: Math_min_def min_def)


lemma volatility_bounds: "1 / 32 \<le> fl 0.06 \<and> fl 0.06 \<le> 1 / 16"
proof -
  have a: "fl (1 / 32) = 1 / 32" using fl_repr [of 1 "- 5"] by (simp add: power_int_minus)
  have b: "fl (1 / 16) = 1 / 16" using fl_repr [of 1 "- 4"] by (simp add: power_int_minus)
  from fl_mono [of "1 / 32" "0.06"] fl_mono [of "0.06" "1 / 16"]
  show ?thesis unfolding a b by simp
qed










lemma findK_exit: "\<not> f (a - Num (real k) * TAU) < Num 0 \<Longrightarrow> findK f a k = Some k"
  by (subst findK.simps) simp


lemma Date_now_frozen [simp]: "Date_now (frozen now u) = (now, frozen now u)"
  by (simp add: Date_now_def frozen_def)

lemma Math_random_frozen [simp]: "Math_random (frozen now u) = (u, frozen now u)"
  by (simp add: Math_random_def frozen_def)

lemma applyTimeDecay_keeps:
  "rating (applyTimeDecay r t) = rating r \<and> volatility (applyTimeDecay r t) = volatility r
   \<and> solveCount (applyTimeDecay r t) = solveCount r"
  by (simp add: applyTimeDecay_def Let_def split: option.splits)



subsection \<open>The rating update on a deviation that is not a number\<close>

lemma num_NaN_right [simp]:
  "num_add a NaN = NaN" "num_mul a NaN = NaN" "num_div a NaN = NaN"
  "\<not> num_less a NaN" "\<not> num_le a NaN"
  by (cases a; simp)+

lemma num_NaN_left [simp]:
  "num_add NaN a = NaN" "num_mul NaN a = NaN" "num_div NaN a = NaN"
  "\<not> num_less NaN a" "\<not> num_le NaN a"
  by (cases a; simp)+

lemma Math_NaN [simp]:
  "Math_max a NaN = NaN" "Math_max NaN a = NaN" "Math_min a NaN = NaN" "Math_min NaN a = NaN"
  by (simp_all add: Math_max_def Math_min_def)

lemma f_vol_NaN: "f_vol a deltaSquared NaN v x = NaN"
  by (simp add: f_vol_def Let_def)

text \<open>
  With \<open>phiSquared = NaN\<close> the function of the solver is \<open>NaN\<close> everywhere. Both loop tests
  are false on \<open>NaN\<close>: the first loop ends at \<open>k = 1\<close>, the second after one iteration, whose
  secant step makes \<open>B\<close> a \<open>NaN\<close>. The solver returns its starting point.
\<close>

lemma illinois_NaN:
  assumes "\<And>x. F x = NaN"
  shows "illinois F (Num a) (Num (a - 1 / 2)) NaN NaN = Some (Num a)"
proof -
  have e: "fl 0.000001 < 1 / 2" using epsilon_bounds by simp
  have 1: "illinois F (Num a) (Num (a - 1 / 2)) NaN NaN = illinois F (Num a) NaN NaN NaN"
    using e by (subst illinois.simps) (simp add: Let_def assms EPSILON_def)
  have 2: "illinois F (Num a) NaN NaN NaN = Some (Num a)"
    by (subst illinois.simps) (simp add: EPSILON_def)
  show ?thesis by (simp only: 1 2)
qed

lemma newVolatility_NaN:
  "newVolatility (Num a) deltaSquared NaN v = Some (Num (exp (a / 2)))"
proof -
  have F: "f_vol (Num a) deltaSquared NaN v = (\<lambda>x. NaN)"
    by (rule ext) (rule f_vol_NaN)
  have k: "findK (\<lambda>x. NaN) (Num a) 1 = Some 1"
    by (rule findK_exit) simp
  have i: "illinois (\<lambda>x. NaN) (Num a) (Num (a - 1 / 2)) NaN NaN = Some (Num a)"
    by (rule illinois_NaN) simp
  show ?thesis
    unfolding newVolatility_def Let_def F k using i by (simp add: TAU_def)
qed

lemma updateRating_NaN:
  assumes d: "rd (applyTimeDecay r (shd (clock w))) = NaN"
    and s: "volatility r = Num s" "s \<noteq> 0"
  shows "updateRating r p outcome w
           = Some (\<lparr>rating = NaN, rd = NaN, volatility = Num (exp (ln (s * s) / 2)),
                    lastUpdated = Some (shd (stl (clock w))), solveCount = solveCount r + 1\<rparr>,
                   w\<lparr>clock := stl (stl (clock w))\<rparr>)"
proof -
  define dr where "dr = applyTimeDecay r (shd (clock w))"
  have k: "volatility dr = Num s" "solveCount dr = solveCount r" "rd dr = NaN"
    using applyTimeDecay_keeps [of r "shd (clock w)"] s(1) d by (simp_all add: dr_def)
  have phi: "rdToGlickoScale NaN = NaN" by (simp add: rdToGlickoScale_def)
  have pp: "NaN * NaN = NaN" by simp
  have "0 < s * s" using s(2) by (auto simp: zero_less_mult_iff)
  then have aa: "Math_log (Num s * Num s) = Num (ln (s * s))" using s(2) by simp
  have fG: "fromGlickoScale NaN = NaN" "rdFromGlickoScale NaN = NaN"
    by (simp_all add: fromGlickoScale_def rdFromGlickoScale_def)
  show ?thesis
    unfolding updateRating_def Date_now_def Let_def prod.case dr_def [symmetric] k phi pp aa
      newVolatility_NaN option.case
    by (simp add: fG)
qed

lemma rnd_neg_one [simp]: "rnd (Num (- 1)) = Num (- 1)"
  using rnd_of_int [of "- 1"] by simp

lemma futureRating_decay: "rd (applyTimeDecay futureRating 1000) = NaN"
proof -
  have r: "decayRadicand (Num 30) 31536001000 1000 = Num (- 1600)"
    by (simp add: decayRadicand_def rnd_numeral rnd_neg_numeral del: rnd.simps)
  have "applyTimeDecay futureRating 1000 =
          futureRating\<lparr>rd := Math_round (Math_min (rnd (Math_sqrt (decayRadicand (rd futureRating) 31536001000 1000))) (Num 350)),
                lastUpdated := Some 1000\<rparr>"
    by (rule applyTimeDecay_set) (simp_all add: futureRating_def)
  then show ?thesis by (simp add: futureRating_def r)
qed

lemma validRating_futureRating: "validRating futureRating"
  using volatility_bounds by (simp add: validRating_def futureRating_def)

text \<open>
  C1 says that \<open>updateRating\<close> returns a rating in \<open>[800, 3500]\<close> and a deviation in
  \<open>[30, 350]\<close> for every rating that satisfies the invariants. \<open>futureRating\<close> satisfies them
  and was last updated one rating period after the reading of the clock: the radicand of the
  time decay is \<open>30\<^sup>2 - 50\<^sup>2\<close>, its square root is \<open>NaN\<close>, and the clamps
  \<open>Math.max(800, Math.min(3500, x))\<close> and \<open>Math.max(30, Math.min(350, x))\<close> let \<open>NaN\<close> through. The
  rating and the deviation returned are \<open>NaN\<close>.
\<close>

theorem updateRating_not_a_number:
  "validRating futureRating
   \<and> map_option (\<lambda>(r', w'). (rating r', rd r', lastUpdated r', solveCount r', w'))
       (updateRating futureRating (Num 1500) (Num 1) (frozen 1000 0))
     = Some (NaN, NaN, Some 1000, 8, frozen 1000 0)"
proof -
  have "fl 0.06 \<noteq> 0" using volatility_bounds by auto
  then have "updateRating futureRating (Num 1500) (Num 1) (frozen 1000 0)
    = Some (\<lparr>rating = NaN, rd = NaN, volatility = Num (exp (ln (fl 0.06 * fl 0.06) / 2)),
                    lastUpdated = Some (shd (stl (clock (frozen 1000 0)))), solveCount = solveCount futureRating + 1\<rparr>,
                   (frozen 1000 0)\<lparr>clock := stl (stl (clock (frozen 1000 0)))\<rparr>)"
    by (intro updateRating_NaN) (simp_all add: frozen_def futureRating_decay, simp add: futureRating_def)
  then show ?thesis
    using validRating_futureRating by (simp add: frozen_def futureRating_def)
qed

subsection \<open>Ratings from the solve history\<close>



lemma initializeRating_frozen [simp]: "initializeRating (frozen 1000 u) = (newRating, frozen 1000 u)"
  by (simp add: initializeRating_def newRating_def)


















subsection \<open>Selection of calibration problems\<close>

lemma Math_random_ok:
  assumes "random_ok w" and "Math_random w = (u, w')"
  shows "0 \<le> u \<and> u < 1 \<and> random_ok w'"
proof -
  have u: "u = shd (random w)" and w': "random w' = stl (random w)"
    using assms(2) by (auto simp: Math_random_def)
  have "shd (random w) \<in> sset (random w)"
    by (simp add: shd_sset)
  moreover have "sset (stl (random w)) \<subseteq> sset (random w)"
    by (auto intro: stl_sset)
  ultimately show ?thesis
    using assms(1) u w' unfolding random_ok_def by auto
qed

lemma random_index_le:
  assumes "0 \<le> u" and "u < 1"
  shows "nat \<lfloor>u * real (Suc i + 1)\<rfloor> \<le> Suc i"
proof -
  have "u * real (Suc i + 1) < real (Suc i + 1)"
    using assms by simp
  then have "\<lfloor>u * real (Suc i + 1)\<rfloor> < int (Suc i + 1)"
    by (simp add: floor_less_iff)
  then show ?thesis by simp
qed

lemma shuffleFrom_perm:
  "random_ok w \<Longrightarrow> i < length xs \<Longrightarrow>
     set (fst (shuffleFrom i xs w)) = set xs \<and> length (fst (shuffleFrom i xs w)) = length xs"
proof (induction i arbitrary: xs w)
  case 0
  then show ?case by simp
next
  case (Suc i)
  obtain u w' where r: "Math_random w = (u, w')"
    by (cases "Math_random w")
  from Math_random_ok [OF Suc.prems(1) r] have u: "0 \<le> u" "u < 1" and ok': "random_ok w'"
    by simp_all
  let ?j = "nat \<lfloor>u * real (Suc i + 1)\<rfloor>"
  let ?ys = "xs[Suc i := xs ! ?j, ?j := xs ! Suc i]"
  have j: "?j < length xs"
    using random_index_le [OF u, of i] Suc.prems(2) by linarith
  have s: "set ?ys = set xs"
    using j Suc.prems(2) by (simp add: set_swap)
  have l: "length ?ys = length xs" by simp
  have "i < length ?ys" using Suc.prems(2) by simp
  from Suc.IH [OF ok' this] show ?case
    using r s l by (simp add: Let_def)
qed

lemma shuffleArray_perm:
  assumes "random_ok w"
  shows "set (fst (shuffleArray xs w)) = set xs \<and> length (fst (shuffleArray xs w)) = length xs"
proof (cases xs)
  case Nil
  then show ?thesis by (simp add: shuffleArray_def)
next
  case (Cons a list)
  then have "length xs - 1 < length xs" by simp
  from shuffleFrom_perm [OF assms this] show ?thesis
    by (simp add: shuffleArray_def)
qed

lemma hd_sortByPopularity: "xs \<noteq> [] \<Longrightarrow> hd (sortByPopularity xs) \<in> set xs"
proof -
  assume "xs \<noteq> []"
  then have "sortByPopularity xs \<noteq> []"
    by (metis sortByPopularity_def length_sort length_0_conv)
  then have "hd (sortByPopularity xs) \<in> set (sortByPopularity xs)"
    by (rule hd_in_set)
  then show ?thesis by (simp add: sortByPopularity_def)
qed

lemma chosen_in_candidates:
  assumes "filter P cands \<noteq> []"
  shows "hd (sortByPopularity (if filter Q (filter P cands) \<noteq> [] then filter Q (filter P cands)
                               else filter P cands)) \<in> set cands"
proof -
  let ?pool = "if filter Q (filter P cands) \<noteq> [] then filter Q (filter P cands) else filter P cands"
  have "?pool \<noteq> []" using assms by simp
  then have "hd (sortByPopularity ?pool) \<in> set ?pool" by (rule hd_sortByPopularity)
  moreover have "set ?pool \<subseteq> set cands" by auto
  ultimately show ?thesis by blast
qed

lemma selectTargets_subset:
  "set (fst (selectTargets cands count ts sel used)) \<subseteq> set sel \<union> set cands"
proof (induction ts arbitrary: sel used)
  case Nil
  then show ?case by simp
next
  case (Cons t ts)
  show ?case
  proof (cases "length sel \<ge> count \<or> filter (isNearby t) cands = []")
    case True
    then show ?thesis using Cons.IH [of sel used] by auto
  next
    case False
    then have ne: "filter (isNearby t) cands \<noteq> []" and lt: "\<not> length sel \<ge> count" by simp_all
    from chosen_in_candidates [OF ne, of "isPreferred used"]
    show ?thesis
      using ne lt Cons.IH
      by (simp only: selectTargets.simps Let_def if_False set_append) fastforce
  qed
qed

lemma selectTargets_length:
  "length sel \<le> count \<Longrightarrow> length (fst (selectTargets cands count ts sel used)) \<le> count"
proof (induction ts arbitrary: sel used)
  case Nil
  then show ?case by simp
next
  case (Cons t ts)
  show ?case
  proof (cases "length sel \<ge> count \<or> filter (isNearby t) cands = []")
    case True
    then show ?thesis using Cons.IH [of sel used] Cons.prems by auto
  next
    case False
    then have ne: "filter (isNearby t) cands \<noteq> []" and lt: "\<not> length sel \<ge> count" by simp_all
    have "\<And>c. length (sel @ [c]) \<le> count" using lt by simp
    then show ?thesis
      using ne lt Cons.IH
      by (simp only: selectTargets.simps Let_def if_False)
  qed
qed

lemma fillRemaining_subset:
  "set (fillRemaining cands count sel) \<subseteq> set sel \<union> set cands"
  by (auto simp: fillRemaining_def Let_def sortByPopularity_def dest: in_set_takeD)

lemma fillRemaining_length:
  "length sel \<le> count \<Longrightarrow> length (fillRemaining cands count sel) \<le> count"
  by (auto simp: fillRemaining_def Let_def)

text \<open>
  C5. Every problem returned by \<open>selectCalibrationProblems\<close> is unsolved, not paid and rated
  in \<open>[1100, 2300]\<close>, and at most \<open>count\<close> problems are returned.
\<close>

theorem selectCalibrationProblems_candidates:
  assumes "random_ok w"
  shows "(\<forall>p \<in> set (fst (selectCalibrationProblems allProblems count solvedSlugs w)).
            slug p \<notin> solvedSlugs \<and> isPaid p \<noteq> Some True
            \<and> (\<exists>r. prating p = Some r \<and> 1100 \<le> r \<and> r \<le> 2300))
         \<and> length (fst (selectCalibrationProblems allProblems count solvedSlugs w)) \<le> count"
proof -
  let ?cands = "filter (isCandidate solvedSlugs) allProblems"
  let ?sel = "fst (selectTargets ?cands count CALIBRATION_TARGET_RATINGS [] {})"
  let ?filled = "fillRemaining ?cands count ?sel"
  have sub: "set ?filled \<subseteq> set ?cands"
    using fillRemaining_subset [of ?cands count ?sel] selectTargets_subset [of ?cands count CALIBRATION_TARGET_RATINGS "[]" "{}"]
    by auto
  have len: "length ?filled \<le> count"
    by (rule fillRemaining_length) (rule selectTargets_length, simp)
  have res: "set (fst (selectCalibrationProblems allProblems count solvedSlugs w)) \<subseteq> set ?cands"
    using sub shuffleArray_perm [OF assms, of ?filled]
    by (simp add: selectCalibrationProblems_def Let_def)
  have reslen: "length (fst (selectCalibrationProblems allProblems count solvedSlugs w)) \<le> count"
    using len shuffleArray_perm [OF assms, of ?filled]
    by (simp add: selectCalibrationProblems_def Let_def)
  have cand: "\<And>p. p \<in> set ?cands \<Longrightarrow> slug p \<notin> solvedSlugs \<and> isPaid p \<noteq> Some True
            \<and> (\<exists>r. prating p = Some r \<and> 1100 \<le> r \<and> r \<le> 2300)"
    by (auto simp: isCandidate_def split: option.splits)
  show ?thesis
    using res reslen cand by blast
qed

lemma select_example:
  "fst (selectCalibrationProblems [p1200, p1700] 8 {''b''} (frozen 0 0)) = [p1200]"
  by (simp add: selectCalibrationProblems_def isCandidate_def p1200_def p1700_def
      CALIBRATION_TARGET_RATINGS_def isNearby_def isPreferred_def sortByPopularity_def
      fillRemaining_def shuffleArray_def Let_def frozen_def Math_random_def)

theorem selectCalibrationProblems_candidates_witness:
  "random_ok (frozen 0 0)
   \<and> fst (selectCalibrationProblems [p1200, p1700] 8 {''b''} (frozen 0 0)) = [p1200]
   \<and> slug p1200 \<notin> {''b''} \<and> isPaid p1200 \<noteq> Some True
   \<and> (\<exists>r. prating p1200 = Some r \<and> 1100 \<le> r \<and> r \<le> 2300)
   \<and> length [p1200] \<le> (8::nat)"
  using selectCalibrationProblems_candidates
      [where w = "frozen 0 0" and allProblems = "[p1200, p1700]" and solvedSlugs = "{''b''}"
         and count = 8]
  by (simp add: random_ok_frozen select_example)

text \<open>
  C10. The problems returned by \<open>selectCalibrationProblems\<close> should be pairwise distinct.
  The loop over the target ratings filters the full candidate list for every target, so a
  problem rated 1300 is chosen for target 1200 and again for target 1400: the single
  candidate is returned twice.
\<close>

theorem selectCalibrationProblems_duplicate:
  "fst (selectCalibrationProblems [p1300] 8 {} (frozen 0 0)) = [p1300, p1300]
   \<and> \<not> distinct (map slug (fst (selectCalibrationProblems [p1300] 8 {} (frozen 0 0))))"
  by (simp add: selectCalibrationProblems_def isCandidate_def p1300_def
      CALIBRATION_TARGET_RATINGS_def isNearby_def isPreferred_def sortByPopularity_def
      fillRemaining_def shuffleArray_def Let_def frozen_def Math_random_def)

end
